theory Spec2Isabelle
  imports Complex_Main "HOL-Library.Multiset"
begin

section \<open>Thyracont Smartline V1: frame codec and attributes\<close>

text \<open>
  A shallow embedding of \<^verbatim>\<open>pymeasure/instruments/thyracont/smartline_v1.py\<close>.

  A Python \<^verbatim>\<open>str\<close> is a sequence of Unicode code points, and \<^verbatim>\<open>len\<close> counts
  code points, so a string is a list of code points here. \<open>lit\<close> turns an ASCII
  literal into that representation.
\<close>

type_synonym pystr = "nat list"

definition lit :: "string \<Rightarrow> pystr" where
  "lit s = map of_char s"

text \<open>
  The exceptions the driver can raise. Every \<^verbatim>\<open>raise\<close> of the source is a
  \<open>ValueError\<close> carrying its message; \<open>IndexError\<close> is what indexing a string out of
  range raises, \<open>KeyError\<close> what a dictionary raises on a missing key and
  \<open>OverflowError\<close> what the conversion of too large an integer to a float raises.
  \<open>ValidationError\<close> is the error of the attribute validator, \<open>NoReply\<close> stands
  for a transport that delivers no line, and \<open>NotModelled\<close> for an argument of a
  builtin outside the part of its domain that is written out here.
\<close>

datatype error =
    ValueError pystr
  | IndexError
  | KeyError
  | OverflowError
  | ValidationError
  | NoReply
  | NotModelled

subsection \<open>Builtins\<close>

definition ord_py :: "nat \<Rightarrow> int" where
  "ord_py c = int c"

text \<open>\<^verbatim>\<open>chr(i)\<close> is a one-character string, and raises outside \<^verbatim>\<open>range(0x110000)\<close>.\<close>

definition chr_py :: "int \<Rightarrow> error + pystr" where
  "chr_py i =
     (if 0 \<le> i \<and> i < 0x110000 then Inr [nat i]
      else Inl (ValueError (lit ''chr() arg not in range(0x110000)'')))"

subsection \<open>The checksum\<close>

text \<open>\<^verbatim>\<open>return chr(sum(map(ord, msg)) % 64 + 64)\<close>\<close>

definition checksum :: "pystr \<Rightarrow> error + pystr" where
  "checksum msg = chr_py (sum_list (map ord_py msg) mod 64 + 64)"

subsection \<open>Integer formatting\<close>

text \<open>
  The decimal digits of a natural number, most significant first, as Python
  prints them (\<open>48\<close> is the code point of \<^verbatim>\<open>0\<close>).
\<close>

fun digits :: "nat \<Rightarrow> pystr" where
  "digits n = (if n < 10 then [48 + n] else digits (n div 10) @ [48 + n mod 10])"

declare digits.simps [simp del]

definition zero_pad :: "nat \<Rightarrow> pystr \<Rightarrow> pystr" where
  "zero_pad w ds = replicate (w - length ds) 48 @ ds"

text \<open>
  The format specifications \<^verbatim>\<open>0wd\<close> of the source (\<^verbatim>\<open>f"{x:03d}"\<close>, \<^verbatim>\<open>"%06d"\<close>, and
  \<^verbatim>\<open>"%d"\<close> with \<open>w = 0\<close>): \<open>w\<close> is a minimum width, a negative number has its
  sign first (code point \<open>45\<close>) and the sign counts towards the width.
\<close>

definition format_d :: "nat \<Rightarrow> int \<Rightarrow> pystr" where
  "format_d w a =
     (if a < 0 then 45 # zero_pad (w - 1) (digits (nat (- a)))
      else zero_pad w (digits (nat a)))"

subsection \<open>The instrument and its transport\<close>

text \<open>
  The only attribute \<^verbatim>\<open>__init__\<close> sets on the instance is \<open>address\<close>. The adapter
  is represented by what crosses it: \<open>sent\<close> is every byte string handed to the
  serial line so far, oldest first, and \<open>inbox\<close> is the lines the device will
  answer with, next one first.
\<close>

record instrument =
  address :: int
  sent :: "pystr list"
  inbox :: "pystr list"

definition init :: "pystr list \<Rightarrow> int \<Rightarrow> instrument" where
  "init replies a = \<lparr>address = a, sent = [], inbox = replies\<rparr>"

text \<open>
  Modelled from the spec: \<^verbatim>\<open>Instrument.write\<close> and \<^verbatim>\<open>Instrument.read\<close> of the
  base class, which are not part of the source file. By the transport contract
  of the spec and the terminations \<^verbatim>\<open>__init__\<close> configures, a write appends the
  carriage return (code point \<open>13\<close>) and transmits; a read delivers one line, the
  terminator already removed. A device that never answers is \<open>NoReply\<close>.
\<close>

definition adapter_write :: "pystr \<Rightarrow> instrument \<Rightarrow> instrument" where
  "adapter_write s st = st\<lparr>sent := sent st @ [s @ [13]]\<rparr>"

definition adapter_read :: "instrument \<Rightarrow> (error + pystr) \<times> instrument" where
  "adapter_read st =
     (case inbox st of
        [] \<Rightarrow> (Inl NoReply, st)
      | l # ls \<Rightarrow> (Inr l, st\<lparr>inbox := ls\<rparr>))"

subsection \<open>Reading and writing frames\<close>

text \<open>
  Lines 87 to 93 of \<^verbatim>\<open>read\<close>, on the line \<open>msg\<close> the transport delivered:
  \<^verbatim>\<open>
  chksum = self._checksum(msg[:-1])
  if msg[-1] == chksum:
      return msg[:-1]
  else:
      raise ValueError(
          f"checksum error in received message {msg} "
          f"with checksum {chksum} but received {msg[-1]}")
  \<close>
  \<^verbatim>\<open>msg[:-1]\<close> never fails; \<^verbatim>\<open>msg[-1]\<close> raises \<open>IndexError\<close> on the empty string.
\<close>

definition read_decode :: "pystr \<Rightarrow> error + pystr" where
  "read_decode msg =
     (case checksum (butlast msg) of
        Inl e \<Rightarrow> Inl e
      | Inr chksum \<Rightarrow>
          if msg = [] then Inl IndexError
          else if [last msg] = chksum then Inr (butlast msg)
          else Inl (ValueError
                 (lit ''checksum error in received message '' @ msg
                  @ lit '' with checksum '' @ chksum
                  @ lit '' but received '' @ [last msg])))"

definition read :: "instrument \<Rightarrow> (error + pystr) \<times> instrument" where
  "read st =
     (case adapter_read st of
        (Inl e, st') \<Rightarrow> (Inl e, st')
      | (Inr msg, st') \<Rightarrow> (read_decode msg, st'))"

text \<open>
  The method \<^verbatim>\<open>write\<close> (\<open>write\<close> is a keyword of the proof language, hence
  the suffix):
  \<^verbatim>\<open>
  fullcmd = f"{self.address:03d}" + command
  super().write(fullcmd + self._checksum(fullcmd))
  \<close>
\<close>

definition write_msg :: "pystr \<Rightarrow> instrument \<Rightarrow> (error + unit) \<times> instrument" where
  "write_msg command st =
     (let fullcmd = format_d 3 (address st) @ command in
      case checksum fullcmd of
        Inl e \<Rightarrow> (Inl e, st)
      | Inr chksum \<Rightarrow> (Inr (), adapter_write (fullcmd @ chksum) st))"

text \<open>
  \<^verbatim>\<open>
  reply = self.read()
  if len(reply) < 4:
      raise ValueError(f"Reply of instrument ('{reply}') too short.")
  if reply[3] in ["N", "X"]:
      raise ValueError(f"Reply from Instrument indicates an error '{reply}'")
  return []
  \<close>
  \<open>39\<close> is the code point of the single quote, \<open>78\<close> of \<^verbatim>\<open>N\<close> and \<open>88\<close> of \<^verbatim>\<open>X\<close>.
\<close>

definition check_errors :: "instrument \<Rightarrow> (error + pystr list) \<times> instrument" where
  "check_errors st =
     (case read st of
        (Inl e, st') \<Rightarrow> (Inl e, st')
      | (Inr reply, st') \<Rightarrow>
          if length reply < 4 then
            (Inl (ValueError (lit ''Reply of instrument ('' @ [39] @ reply @ [39]
                              @ lit '') too short.'')), st')
          else if reply ! 3 \<in> set (lit ''NX'') then
            (Inl (ValueError (lit ''Reply from Instrument indicates an error ''
                              @ [39] @ reply @ [39])), st')
          else (Inr [], st'))"

subsection \<open>Floating point\<close>







subsection \<open>Decoding the attributes\<close>









subsection \<open>Writing the attributes\<close>

text \<open>
  The values a caller can assign to \<^verbatim>\<open>unit\<close> and \<^verbatim>\<open>cathode_enabled\<close>: strings,
  booleans, integers and finite floats. Python compares numbers by value, a
  boolean counting as the integer 1 or 0, so that \<^verbatim>\<open>1 == True\<close> and
  \<^verbatim>\<open>0.0 == False\<close>, and it never equates a string with a number.
\<close>

datatype pyval = PStr pystr | PBool bool | PInt int | PFloat real

fun num_val :: "pyval \<Rightarrow> real option" where
  "num_val (PStr s) = None"
| "num_val (PBool b) = Some (if b then 1 else 0)"
| "num_val (PInt i) = Some (of_int i)"
| "num_val (PFloat x) = Some x"

fun py_eq :: "pyval \<Rightarrow> pyval \<Rightarrow> bool" where
  "py_eq (PStr s) (PStr t) = (s = t)"
| "py_eq (PStr s) w = False"
| "py_eq v (PStr t) = False"
| "py_eq v w = (num_val v = num_val w)"

text \<open>
  The \<^verbatim>\<open>values\<close> dictionaries of the two declarations, in their order:
  \<^verbatim>\<open>{"mbar": 0, "Torr": 1, "hPa": 2}\<close> and \<^verbatim>\<open>{True: 1, False: 0}\<close>.
\<close>

definition unit_values :: "(pyval \<times> int) list" where
  "unit_values = [(PStr (lit ''mbar''), 0), (PStr (lit ''Torr''), 1), (PStr (lit ''hPa''), 2)]"

definition cathode_enabled_values :: "(pyval \<times> int) list" where
  "cathode_enabled_values = [(PBool True, 1), (PBool False, 0)]"

text \<open>
  Modelled from the spec: the validator \<^verbatim>\<open>strict_discrete_set\<close> of
  \<^verbatim>\<open>pymeasure.instruments.validators\<close>, which is not part of the source file. It
  accepts a value that is a member of the attribute's declared domain, the
  keys of its dictionary, and fails with a validation error otherwise.
  Membership in a dictionary is Python's: some key equals the value.
\<close>

definition strict_discrete_set :: "pyval \<Rightarrow> (pyval \<times> int) list \<Rightarrow> error + pyval" where
  "strict_discrete_set v vals =
     (if list_ex (py_eq v) (map fst vals) then Inr v else Inl ValidationError)"

text \<open>\<^verbatim>\<open>values[value]\<close>: the entry of the first key that equals the value.\<close>

definition dict_get :: "(pyval \<times> int) list \<Rightarrow> pyval \<Rightarrow> error + int" where
  "dict_get vals v =
     (case find (\<lambda>kv. py_eq v (fst kv)) vals of
        None \<Rightarrow> Inl KeyError
      | Some kv \<Rightarrow> Inr (snd kv))"

text \<open>
  Modelled from the spec: the setter that \<^verbatim>\<open>Instrument.control\<close> builds, which is
  not part of the source file. It validates the value before anything is
  transmitted, maps it through the attribute's table, formats the write command
  with the attribute's template, writes the frame and, where the declaration
  says \<^verbatim>\<open>check_set_errors=True\<close>, checks the acknowledgement.
\<close>

definition control_set ::
  "(int \<Rightarrow> pystr) \<Rightarrow> (pyval \<times> int) list \<Rightarrow> bool \<Rightarrow> pyval \<Rightarrow> instrument
     \<Rightarrow> (error + unit) \<times> instrument" where
  "control_set template vals check_set_errors v st =
     (case strict_discrete_set v vals of
        Inl e \<Rightarrow> (Inl e, st)
      | Inr v' \<Rightarrow>
          (case dict_get vals v' of
             Inl e \<Rightarrow> (Inl e, st)
           | Inr raw \<Rightarrow>
               (case write_msg (template raw) st of
                  (Inl e, st') \<Rightarrow> (Inl e, st')
                | (Inr u, st') \<Rightarrow>
                    if check_set_errors then
                      (case check_errors st' of
                         (Inl e, st'') \<Rightarrow> (Inl e, st'')
                       | (Inr errs, st'') \<Rightarrow> (Inr (), st''))
                    else (Inr (), st'))))"

text \<open>
  The declarations of the source: \<^verbatim>\<open>unit\<close> writes \<^verbatim>\<open>"u%06d"\<close> and does not check
  the acknowledgement, \<^verbatim>\<open>cathode_enabled\<close> writes \<^verbatim>\<open>"i%d"\<close> and checks it.
\<close>

definition set_unit :: "pyval \<Rightarrow> instrument \<Rightarrow> (error + unit) \<times> instrument" where
  "set_unit = control_set (\<lambda>raw. lit ''u'' @ format_d 6 raw) unit_values False"

definition set_cathode_enabled :: "pyval \<Rightarrow> instrument \<Rightarrow> (error + unit) \<times> instrument" where
  "set_cathode_enabled = control_set (\<lambda>raw. lit ''i'' @ format_d 0 raw) cathode_enabled_values True"

section \<open>Properties of the checksum\<close>

lemma checksum_code_point:
  "checksum s = Inr [nat (sum_list (map ord_py s) mod 64 + 64)]"
proof -
  have "0 \<le> sum_list (map ord_py s) mod 64" by simp
  moreover have "sum_list (map ord_py s) mod 64 < 64" by simp
  ultimately show ?thesis
    unfolding checksum_def chr_py_def by simp
qed

lemma sum_ord_nat: "sum_list (map ord_py s) = int (sum_list s)"
  by (induction s) (simp_all add: ord_py_def)

text \<open>
  C2. For every string \<open>s\<close> the checksum is computed without error; it is the
  character \<^verbatim>\<open>chr\<close> of (the sum of the ordinals of \<open>s\<close>) mod 64 + 64, a string of
  exactly one character, whose ordinal lies between 64 and 127.
\<close>

theorem checksum_value_and_range:
  "\<exists>c. checksum s = Inr [c]
     \<and> chr_py (int (sum_list s) mod 64 + 64) = Inr [c]
     \<and> ord_py c = int (sum_list s) mod 64 + 64
     \<and> 64 \<le> ord_py c \<and> ord_py c \<le> 127"
proof -
  let ?v = "int (sum_list s) mod 64 + 64"
  have lo: "0 \<le> int (sum_list s) mod 64" by simp
  have hi: "int (sum_list s) mod 64 < 64" by simp
  have a: "checksum s = Inr [nat ?v]"
    using checksum_code_point [of s] by (simp add: sum_ord_nat)
  have b: "chr_py ?v = Inr [nat ?v]"
    using lo hi unfolding chr_py_def by simp
  have c: "ord_py (nat ?v) = ?v"
    using lo unfolding ord_py_def by simp
  have d: "64 \<le> ?v \<and> ?v \<le> 127"
    using lo hi by linarith
  from a b c d show ?thesis by metis
qed

lemma sum_ord_mset:
  "mset s = mset t \<Longrightarrow> sum_list (map ord_py s) = sum_list (map ord_py t)"
proof -
  assume "mset s = mset t"
  then have "mset (map ord_py s) = mset (map ord_py t)" by simp
  then have "sum_mset (mset (map ord_py s)) = sum_mset (mset (map ord_py t))"
    by (rule arg_cong)
  then show ?thesis by (simp only: sum_mset_sum_list)
qed

text \<open>
  C7. The checksum is a function of its argument alone, and it does not depend
  on the order of the characters: if \<open>t\<close> is a permutation of \<open>s\<close> (the two have
  the same multiset of characters) then their checksums are equal.
\<close>

theorem checksum_permutation:
  "mset s = mset t \<Longrightarrow> checksum s = checksum t"
  unfolding checksum_def by (simp add: sum_ord_mset [of s t])

theorem checksum_permutation_witness:
  "mset (lit ''001M'') = mset (lit ''M100'')
     \<and> checksum (lit ''001M'') = checksum (lit ''M100'')"
proof -
  have h: "mset (lit ''001M'') = mset (lit ''M100'')"
    by (simp add: lit_def)
  from h checksum_permutation [OF h] show ?thesis by simp
qed

section \<open>Properties of the frame codec\<close>

lemma checksum_total: "\<exists>c. checksum s = Inr [c]"
  using checksum_code_point [of s] by blast

lemma read_decode_snoc:
  "checksum body = Inr [c] \<Longrightarrow> read_decode (body @ [c]) = Inr body"
  by (simp add: read_decode_def)

lemma write_msg_sent:
  "checksum (format_d 3 (address st) @ command) = Inr [c] \<Longrightarrow>
   write_msg command st =
     (Inr (), st\<lparr>sent := sent st @ [(format_d 3 (address st) @ command @ [c]) @ [13]]\<rparr>)"
  by (simp add: write_msg_def adapter_write_def)

lemma loopback_roundtrip:
  "\<exists>frame. write_msg command st = (Inr (), st\<lparr>sent := sent st @ [frame @ [13]]\<rparr>)
      \<and> read_decode frame = Inr (format_d 3 (address st) @ command)"
proof -
  let ?body = "format_d 3 (address st) @ command"
  obtain c where c: "checksum ?body = Inr [c]"
    using checksum_total by blast
  have "write_msg command st = (Inr (), st\<lparr>sent := sent st @ [(?body @ [c]) @ [13]]\<rparr>)"
    using write_msg_sent [OF c] by simp
  moreover have "read_decode (?body @ [c]) = Inr ?body"
    using c by (rule read_decode_snoc)
  ultimately show ?thesis by blast
qed

lemma digits_lt_10: "n < 10 \<Longrightarrow> digits n = [48 + n]"
  by (simp add: digits.simps [of n])

lemma digits_lt_100:
  assumes "10 \<le> n" "n < 100"
  shows "digits n = [48 + n div 10, 48 + n mod 10]"
proof -
  have "n div 10 < 10" using assms by simp
  then have "digits (n div 10) = [48 + n div 10]" by (rule digits_lt_10)
  then show ?thesis using assms by (simp add: digits.simps [of n])
qed

lemma digits_lt_1000:
  assumes "100 \<le> n" "n < 1000"
  shows "digits n = [48 + n div 100, 48 + n div 10 mod 10, 48 + n mod 10]"
proof -
  have "10 \<le> n div 10" "n div 10 < 100" using assms by simp_all
  then have "digits (n div 10) = [48 + n div 10 div 10, 48 + n div 10 mod 10]"
    by (rule digits_lt_100)
  moreover have "n div 10 div 10 = n div 100" by (simp add: div_mult2_eq)
  ultimately show ?thesis using assms by (simp add: digits.simps [of n])
qed

lemma format_d_3:
  assumes "0 \<le> a" "a \<le> 999"
  shows "format_d 3 a = [48 + nat a div 100, 48 + nat a div 10 mod 10, 48 + nat a mod 10]"
proof -
  let ?n = "nat a"
  have n: "?n < 1000" using assms by simp
  consider "?n < 10" | "10 \<le> ?n" "?n < 100" | "100 \<le> ?n" by linarith
  then have "zero_pad 3 (digits ?n) = [48 + ?n div 100, 48 + ?n div 10 mod 10, 48 + ?n mod 10]"
  proof cases
    case 1
    then show ?thesis by (simp add: digits_lt_10 zero_pad_def numeral_3_eq_3)
  next
    case 2
    then show ?thesis by (simp add: digits_lt_100 zero_pad_def)
  next
    case 3
    then show ?thesis using n by (simp add: digits_lt_1000 zero_pad_def)
  qed
  then show ?thesis using assms by (simp add: format_d_def)
qed

text \<open>
  C1. For every address from 1 to 15, every command letter and every data
  string of printable ASCII characters (code points 32 to 126), writing the
  command hands the transport a frame followed by the carriage return, and
  decoding that frame without the terminator returns the body: the address
  zero-padded to three digits, then the letter, then the data.
\<close>

theorem encode_decode_roundtrip:
  assumes "1 \<le> address st" and "address st \<le> 15"
    and "\<forall>x \<in> set data. 32 \<le> x \<and> x \<le> 126"
  shows "\<exists>frame.
           write_msg (letter # data) st = (Inr (), st\<lparr>sent := sent st @ [frame @ [13]]\<rparr>)
         \<and> read_decode frame
             = Inr ([48, 48 + nat (address st) div 10, 48 + nat (address st) mod 10]
                    @ letter # data)"
proof -
  have "format_d 3 (address st)
          = [48 + nat (address st) div 100, 48 + nat (address st) div 10 mod 10,
             48 + nat (address st) mod 10]"
    using assms(1,2) by (intro format_d_3) simp_all
  moreover have "nat (address st) div 100 = 0" "nat (address st) div 10 mod 10 = nat (address st) div 10"
    using assms(1,2) by simp_all
  ultimately have "format_d 3 (address st)
          = [48, 48 + nat (address st) div 10, 48 + nat (address st) mod 10]"
    by simp
  then show ?thesis
    using loopback_roundtrip [of "letter # data" st] by simp
qed

theorem encode_decode_roundtrip_witness:
  "\<exists>frame.
      write_msg (lit ''M'') (init [] 3) = (Inr (), (init [] 3)\<lparr>sent := [frame @ [13]]\<rparr>)
    \<and> read_decode frame = Inr (lit ''003M'')"
proof -
  let ?st = "init [] 3"
  have h1: "1 \<le> address ?st" by (simp add: init_def)
  have h2: "address ?st \<le> 15" by (simp add: init_def)
  have h3: "\<forall>x \<in> set []. 32 \<le> x \<and> x \<le> (126::nat)" by simp
  show ?thesis
    using encode_decode_roundtrip [OF h1 h2 h3, of 77] by (simp add: init_def lit_def)
qed

text \<open>
  C3. For every received line of at least two characters, the decode step
  fails exactly when the last character differs from the checksum of the
  characters before it. The failure is the \<open>ValueError\<close> of \<^verbatim>\<open>read\<close>, whose message
  holds the raw line, the expected checksum and the received one; otherwise
  the result is the line without its last character.
\<close>

theorem read_decode_checksum:
  assumes "2 \<le> length msg"
  shows "\<exists>expected.
           checksum (butlast msg) = Inr [expected]
         \<and> read_decode msg =
             (if last msg = expected then Inr (butlast msg)
              else Inl (ValueError
                     (lit ''checksum error in received message '' @ msg
                      @ lit '' with checksum '' @ [expected]
                      @ lit '' but received '' @ [last msg])))"
proof -
  obtain c where c: "checksum (butlast msg) = Inr [c]"
    using checksum_total by blast
  have "msg \<noteq> []" using assms by auto
  then show ?thesis using c by (simp add: read_decode_def)
qed

theorem read_decode_checksum_witness:
  "2 \<le> length (lit ''003M`'') \<and> read_decode (lit ''003M`'') = Inr (lit ''003M'')
   \<and> 2 \<le> length (lit ''003Ma'')
   \<and> read_decode (lit ''003Ma'')
       = Inl (ValueError (lit ''checksum error in received message 003Ma with checksum ` but received a''))"
proof -
  have h1: "2 \<le> length (lit ''003M`'')" by (simp add: lit_def)
  have h2: "2 \<le> length (lit ''003Ma'')" by (simp add: lit_def)
  have c: "checksum (lit ''003M'') = Inr (lit ''`'')"
    by (simp add: checksum_def chr_py_def ord_py_def lit_def)
  show ?thesis
    using read_decode_checksum [OF h1] read_decode_checksum [OF h2] c h1 h2
    by (simp add: lit_def)
qed

text \<open>
  C4, as the code has it. A line of one character is decoded like any other:
  its body is empty, the checksum of the empty body is \<^verbatim>\<open>@\<close>, so the line \<^verbatim>\<open>@\<close>
  yields the empty message and every other one-character line fails with the
  checksum \<open>ValueError\<close>. No index fault occurs on such a line.
\<close>

theorem read_decode_one_char:
  assumes "length msg = 1"
  shows "read_decode msg =
           (if msg = lit ''@'' then Inr []
            else Inl (ValueError
                   (lit ''checksum error in received message '' @ msg
                    @ lit '' with checksum @ but received '' @ msg)))"
proof -
  obtain x where x: "msg = [x]"
    using assms by (cases msg) auto
  have "checksum [] = Inr [64]"
    by (simp add: checksum_def chr_py_def)
  then show ?thesis
    using x by (simp add: read_decode_def lit_def)
qed

theorem read_decode_one_char_witness:
  "length (lit ''A'') = 1
   \<and> read_decode (lit ''A'')
       = Inl (ValueError (lit ''checksum error in received message A with checksum @ but received A''))"
proof -
  have h: "length (lit ''A'') = 1" by (simp add: lit_def)
  show ?thesis
    using read_decode_one_char [OF h] h by (simp add: lit_def)
qed

text \<open>
  The claim C4 as stated fails: the one-character line \<^verbatim>\<open>@\<close> is accepted and
  decodes to the empty message, and the empty line raises \<open>IndexError\<close>.
\<close>

theorem read_decode_short_counterexample:
  "read_decode (lit ''@'') = Inr [] \<and> read_decode [] = Inl IndexError"
  by (simp add: read_decode_def checksum_def chr_py_def lit_def)

lemma three_digit_value:
  fixes n :: nat
  shows "100 * (n div 100) + 10 * (n div 10 mod 10) + n mod 10 = n"
proof -
  let ?q = "n div 10"
  have a: "10 * ?q + n mod 10 = n" by simp
  have b: "10 * (?q div 10) + ?q mod 10 = ?q" by simp
  have c: "?q div 10 = n div 100" by (simp add: div_mult2_eq)
  have "100 * (n div 100) + 10 * (?q mod 10) = 10 * (10 * (?q div 10) + ?q mod 10)"
    using c by simp
  also have "\<dots> = 10 * ?q" using b by simp
  finally show ?thesis using a by simp
qed

text \<open>
  C5, as the code has it. For every address from 0 to 999 the frame that
  \<^verbatim>\<open>write\<close> transmits starts with exactly three decimal digits, the zero-padded
  decimal representation of the address, followed by the command.
\<close>

theorem write_msg_address_digits:
  assumes "0 \<le> address st" and "address st \<le> 999"
  shows "\<exists>d2 d1 d0 chk.
           d2 < 10 \<and> d1 < 10 \<and> d0 < 10
         \<and> int (100 * d2 + 10 * d1 + d0) = address st
         \<and> format_d 3 (address st) = [48 + d2, 48 + d1, 48 + d0]
         \<and> write_msg command st =
             (Inr (), st\<lparr>sent := sent st @ [[48 + d2, 48 + d1, 48 + d0] @ command @ [chk, 13]]\<rparr>)"
proof -
  let ?n = "nat (address st)"
  let ?d2 = "?n div 100" and ?d1 = "?n div 10 mod 10" and ?d0 = "?n mod 10"
  have f: "format_d 3 (address st) = [48 + ?d2, 48 + ?d1, 48 + ?d0]"
    using assms by (rule format_d_3)
  obtain c where c: "checksum (format_d 3 (address st) @ command) = Inr [c]"
    using checksum_total by blast
  have w: "write_msg command st =
             (Inr (), st\<lparr>sent := sent st @ [[48 + ?d2, 48 + ?d1, 48 + ?d0] @ command @ [c, 13]]\<rparr>)"
    using write_msg_sent [OF c] f by simp
  have "?n < 1000" using assms by simp
  then have d2: "?d2 < 10" by simp
  have d1: "?d1 < 10" and d0: "?d0 < 10" by simp_all
  have "100 * ?d2 + 10 * ?d1 + ?d0 = ?n" by (rule three_digit_value)
  then have v: "int (100 * ?d2 + 10 * ?d1 + ?d0) = address st"
    using assms(1) by simp
  from d2 d1 d0 v f w show ?thesis by blast
qed

theorem write_msg_address_digits_witness:
  "write_msg (lit ''M'') (init [] 15) = (Inr (), (init [] 15)\<lparr>sent := [lit ''015Mc'' @ [13]]\<rparr>)"
proof -
  let ?st = "init [] 15"
  have h1: "0 \<le> address ?st" by (simp add: init_def)
  have h2: "address ?st \<le> 999" by (simp add: init_def)
  have f: "format_d 3 15 = lit ''015''"
    by (simp add: format_d_def zero_pad_def digits.simps lit_def)
  have c: "checksum (lit ''015M'') = Inr (lit ''c'')"
    by (simp add: checksum_def chr_py_def ord_py_def lit_def)
  obtain d2 d1 d0 chk where
    "format_d 3 (address ?st) = [48 + d2, 48 + d1, 48 + d0]"
    "write_msg (lit ''M'') ?st =
       (Inr (), ?st\<lparr>sent := sent ?st @ [[48 + d2, 48 + d1, 48 + d0] @ lit ''M'' @ [chk, 13]]\<rparr>)"
    using write_msg_address_digits [OF h1 h2, of "lit ''M''"] by blast
  moreover have "write_msg (lit ''M'') ?st = (Inr (), ?st\<lparr>sent := [lit ''015Mc'' @ [13]]\<rparr>)"
    using f c by (simp add: write_msg_def adapter_write_def init_def lit_def)
  ultimately show ?thesis by simp
qed

text \<open>
  The claim C5 as stated fails outside that range: the address 1000 is
  serialized with four digits and the address -1 with a sign and two digits.
\<close>

lemma format_d_3_1000: "format_d 3 1000 = lit ''1000''"
  by (simp add: format_d_def zero_pad_def digits.simps lit_def)

lemma format_d_3_minus_1: "format_d 3 (- 1) = lit ''-01''"
  by (simp add: format_d_def zero_pad_def digits.simps lit_def)

theorem write_msg_address_counterexample:
  "write_msg (lit ''M'') (init [] 1000)
     = (Inr (), \<lparr>address = 1000, sent = [lit ''1000MN'' @ [13]], inbox = []\<rparr>)
   \<and> write_msg (lit ''M'') (init [] (- 1))
     = (Inr (), \<lparr>address = - 1, sent = [lit ''-01M['' @ [13]], inbox = []\<rparr>)"
proof -
  have a: "checksum (format_d 3 1000 @ lit ''M'') = Inr (lit ''N'')"
    by (simp add: format_d_3_1000) (simp add: checksum_def chr_py_def ord_py_def lit_def)
  have b: "checksum (format_d 3 (- 1) @ lit ''M'') = Inr (lit ''['')"
    by (simp add: format_d_3_minus_1) (simp add: checksum_def chr_py_def ord_py_def lit_def)
  show ?thesis
    using a b format_d_3_1000 format_d_3_minus_1
    by (simp add: write_msg_def adapter_write_def init_def lit_def)
qed

text \<open>
  C9. Once \<^verbatim>\<open>read\<close> has decoded the acknowledgement, \<^verbatim>\<open>check_errors\<close> fails with
  the "too short" \<open>ValueError\<close> when the message has fewer than four characters,
  fails with the "indicates an error" \<open>ValueError\<close> when its character at index 3
  is \<^verbatim>\<open>N\<close> or \<^verbatim>\<open>X\<close>, and returns the empty list of errors otherwise.
\<close>

theorem check_errors_acknowledgement:
  assumes "read st = (Inr reply, st')"
  shows "check_errors st =
           (if length reply < 4 then
              Inl (ValueError (lit ''Reply of instrument ('' @ [39] @ reply @ [39]
                               @ lit '') too short.''))
            else if reply ! 3 = 78 \<or> reply ! 3 = 88 then
              Inl (ValueError (lit ''Reply from Instrument indicates an error ''
                               @ [39] @ reply @ [39]))
            else Inr [],
            st')"
  using assms by (simp add: check_errors_def lit_def)

lemma read_init:
  "checksum body = Inr [c] \<Longrightarrow>
   read (init [body @ [c]] a) = (Inr body, init [] a)"
  by (simp add: read_def adapter_read_def init_def read_decode_snoc)

theorem check_errors_acknowledgement_witness:
  "check_errors (init [lit ''001i1k''] 1) = (Inr [], init [] 1)
   \<and> check_errors (init [lit ''001N_''] 1)
       = (Inl (ValueError (lit ''Reply from Instrument indicates an error '' @ [39]
                           @ lit ''001N'' @ [39])), init [] 1)
   \<and> check_errors (init [lit ''01a''] 1)
       = (Inl (ValueError (lit ''Reply of instrument ('' @ [39] @ lit ''01'' @ [39]
                           @ lit '') too short.'')), init [] 1)"
proof -
  have c1: "checksum (lit ''001i1'') = Inr [107]"
    and c2: "checksum (lit ''001N'') = Inr [95]"
    and c3: "checksum (lit ''01'') = Inr [97]"
    by (simp_all add: checksum_def chr_py_def ord_py_def lit_def)
  have r1: "read (init [lit ''001i1k''] 1) = (Inr (lit ''001i1''), init [] 1)"
    using read_init [OF c1, of 1] by (simp add: lit_def)
  have r2: "read (init [lit ''001N_''] 1) = (Inr (lit ''001N''), init [] 1)"
    using read_init [OF c2, of 1] by (simp add: lit_def)
  have r3: "read (init [lit ''01a''] 1) = (Inr (lit ''01''), init [] 1)"
    using read_init [OF c3, of 1] by (simp add: lit_def)
  show ?thesis
    using check_errors_acknowledgement [OF r1] check_errors_acknowledgement [OF r2]
      check_errors_acknowledgement [OF r3]
    by (simp add: lit_def)
qed

text \<open>
  C10. The address is set by \<^verbatim>\<open>__init__\<close>, and no protocol operation changes it:
  after \<^verbatim>\<open>write\<close>, \<^verbatim>\<open>read\<close> and \<^verbatim>\<open>check_errors\<close>, whether they succeed or fail,
  the instrument has the address it had before.
\<close>

theorem address_unchanged:
  "address (init replies a) = a
   \<and> address (snd (write_msg command st)) = address st
   \<and> address (snd (read st)) = address st
   \<and> address (snd (check_errors st)) = address st"
proof -
  have i: "address (init replies a) = a"
    by (simp add: init_def)
  have w: "address (snd (write_msg command st)) = address st"
    by (simp add: write_msg_def adapter_write_def Let_def split: sum.splits)
  have r: "address (snd (read st)) = address st" for st
    by (simp add: read_def adapter_read_def split: list.splits)
  have "address (snd (check_errors st)) = address (snd (read st))"
    by (simp add: check_errors_def split: prod.splits sum.splits)
  then have c: "address (snd (check_errors st)) = address st"
    using r by simp
  from i w r c show ?thesis by simp
qed

section \<open>Properties of the attributes\<close>















lemma py_eq_PStr: "py_eq v (PStr t) \<longleftrightarrow> v = PStr t"
  by (cases v) auto

lemma py_eq_PBool: "py_eq v (PBool b) \<longleftrightarrow> num_val v = Some (if b then 1 else 0)"
  by (cases v) auto

lemma control_set_rejected:
  "\<not> list_ex (py_eq v) (map fst vals) \<Longrightarrow>
   control_set template vals check v st = (Inl ValidationError, st)"
  by (simp add: control_set_def strict_discrete_set_def)

lemma write_msg_001i1:
  "write_msg (lit ''i'' @ format_d 0 1) (init rs 1)
     = (Inr (), (init rs 1)\<lparr>sent := [lit ''001i1k'' @ [13]]\<rparr>)"
proof -
  have f1: "format_d 3 1 = lit ''001''" and f2: "format_d 0 1 = lit ''1''"
    by (simp_all add: format_d_def zero_pad_def digits.simps lit_def eval_nat_numeral)
  have c: "checksum (lit ''001i1'') = Inr (lit ''k'')"
    by (simp add: checksum_def chr_py_def ord_py_def lit_def)
  show ?thesis
    using c f1 f2 by (simp add: write_msg_def adapter_write_def init_def lit_def)
qed

lemma check_errors_001i1k:
  "check_errors ((init [lit ''001i1k''] 1)\<lparr>sent := out\<rparr>)
     = (Inr [], (init [] 1)\<lparr>sent := out\<rparr>)"
proof -
  have c: "checksum (lit ''001i1'') = Inr (lit ''k'')"
    by (simp add: checksum_def chr_py_def ord_py_def lit_def)
  then show ?thesis
    by (simp add: check_errors_def read_def adapter_read_def read_decode_def
        init_def lit_def)
qed

lemma set_unit_Torr:
  "set_unit (PStr (lit ''Torr'')) (init [] 1)
     = (Inr (), (init [] 1)\<lparr>sent := [lit ''001u000001g'' @ [13]]\<rparr>)"
proof -
  have f1: "format_d 3 1 = lit ''001''" and f2: "format_d 6 1 = lit ''000001''"
    by (simp_all add: format_d_def zero_pad_def digits.simps lit_def eval_nat_numeral)
  have c: "checksum (lit ''001u000001'') = Inr (lit ''g'')"
    by (simp add: checksum_def chr_py_def ord_py_def lit_def)
  have "write_msg (lit ''u'' @ format_d 6 1) (init [] 1)
          = (Inr (), (init [] 1)\<lparr>sent := [lit ''001u000001g'' @ [13]]\<rparr>)"
    using c f1 f2 by (simp add: write_msg_def adapter_write_def init_def lit_def)
  then show ?thesis
    by (simp add: set_unit_def control_set_def strict_discrete_set_def dict_get_def
        unit_values_def lit_def)
qed

lemma set_cathode_enabled_True:
  "set_cathode_enabled (PBool True) (init [lit ''001i1k''] 1)
     = (Inr (), (init [] 1)\<lparr>sent := [lit ''001i1k'' @ [13]]\<rparr>)"
  using write_msg_001i1 [of "[lit ''001i1k'']"] check_errors_001i1k [of "[lit ''001i1k'' @ [13]]"]
  by (simp add: set_cathode_enabled_def control_set_def strict_discrete_set_def
      dict_get_def cathode_enabled_values_def)

text \<open>
  C8, as the code has it. A write to \<^verbatim>\<open>unit\<close> with a value that is not one of
  the names \<^verbatim>\<open>mbar\<close>, \<^verbatim>\<open>Torr\<close>, \<^verbatim>\<open>hPa\<close>, and a write to \<^verbatim>\<open>cathode_enabled\<close> with a
  value that equals neither \<^verbatim>\<open>True\<close> nor \<^verbatim>\<open>False\<close>, that is a string or a number
  other than 1 and 0, fails with the validation error and returns the instrument
  as it was: nothing has been handed to the transport and no reply has been
  consumed.
\<close>

theorem set_invalid_value_rejected:
  "(v \<notin> {PStr (lit ''mbar''), PStr (lit ''Torr''), PStr (lit ''hPa'')} \<longrightarrow>
      set_unit v st = (Inl ValidationError, st))
   \<and> (num_val v \<notin> {Some 1, Some 0} \<longrightarrow>
      set_cathode_enabled v st = (Inl ValidationError, st))"
proof -
  have "set_unit v st = (Inl ValidationError, st)"
    if "v \<notin> {PStr (lit ''mbar''), PStr (lit ''Torr''), PStr (lit ''hPa'')}"
  proof -
    from that have "\<not> list_ex (py_eq v) (map fst unit_values)"
      by (simp add: unit_values_def py_eq_PStr)
    then show ?thesis
      unfolding set_unit_def by (rule control_set_rejected)
  qed
  moreover have "set_cathode_enabled v st = (Inl ValidationError, st)"
    if "num_val v \<notin> {Some 1, Some 0}"
  proof -
    from that have "\<not> list_ex (py_eq v) (map fst cathode_enabled_values)"
      by (simp add: cathode_enabled_values_def py_eq_PBool)
    then show ?thesis
      unfolding set_cathode_enabled_def by (rule control_set_rejected)
  qed
  ultimately show ?thesis by blast
qed

theorem set_invalid_value_rejected_witness:
  "set_unit (PInt 1) (init [lit ''001i1k''] 1)
     = (Inl ValidationError, init [lit ''001i1k''] 1)
   \<and> set_cathode_enabled (PInt 2) (init [lit ''001i1k''] 1)
     = (Inl ValidationError, init [lit ''001i1k''] 1)
   \<and> set_cathode_enabled (PStr (lit ''on'')) (init [lit ''001i1k''] 1)
     = (Inl ValidationError, init [lit ''001i1k''] 1)"
proof -
  have h1: "PInt 1 \<notin> {PStr (lit ''mbar''), PStr (lit ''Torr''), PStr (lit ''hPa'')}"
    by simp
  have h2: "num_val (PInt 2) \<notin> {Some 1, Some 0}"
    by simp
  have h3: "num_val (PStr (lit ''on'')) \<notin> {Some 1, Some 0}"
    by simp
  show ?thesis
    using set_invalid_value_rejected [of "PInt 1" "init [lit ''001i1k''] 1"]
      set_invalid_value_rejected [of "PInt 2" "init [lit ''001i1k''] 1"]
      set_invalid_value_rejected [of "PStr (lit ''on'')" "init [lit ''001i1k''] 1"]
      h1 h2 h3
    by blast
qed

text \<open>
  The claim C8 as stated fails for \<^verbatim>\<open>cathode_enabled\<close>: the integer 1 and the
  float 1.0 are not booleans, but they equal the key \<^verbatim>\<open>True\<close> of the dictionary,
  so the write is accepted and the frame \<^verbatim>\<open>001i1k\<close> is transmitted.
\<close>

theorem set_cathode_enabled_counterexample:
  "set_cathode_enabled (PInt 1) (init [lit ''001i1k''] 1)
     = (Inr (), (init [] 1)\<lparr>sent := [lit ''001i1k'' @ [13]]\<rparr>)
   \<and> set_cathode_enabled (PFloat 1) (init [lit ''001i1k''] 1)
     = (Inr (), (init [] 1)\<lparr>sent := [lit ''001i1k'' @ [13]]\<rparr>)"
  using write_msg_001i1 [of "[lit ''001i1k'']"] check_errors_001i1k [of "[lit ''001i1k'' @ [13]]"]
  by (simp add: set_cathode_enabled_def control_set_def strict_discrete_set_def
      dict_get_def cathode_enabled_values_def)

end
